theory Spec2Isabelle
  imports
    Main
    "HOL-Library.Char_ord"
    "HOL-Library.List_Lexorder"
    "HOL-Library.Product_Lexorder"
begin

section \<open>Python values used by main.py\<close>

text \<open>
  Exceptions of the Python run time are values. \<open>Raised n\<close> is an exception named
  \<open>n\<close> that an external collaborator (the HTTP client, the HTML or date parser)
  raises; the other constructors are raised by the interpreter while it runs main.py.
\<close>

datatype error =
    NameError string
  | UnboundLocalError string
  | AttributeError string
  | TypeError
  | ValueError
  | KeyError string
  | IndexError
  | Raised string

text \<open>
  \<open>datetime.date\<close>: a calendar date, compared by year, then month, then day.
\<close>

datatype date = Date (year: int) (month: int) (day: int)

instantiation date :: linorder
begin

definition less_date :: "date \<Rightarrow> date \<Rightarrow> bool" where
  "less_date a b \<longleftrightarrow>
     year a < year b \<or>
     (year a = year b \<and> (month a < month b \<or> (month a = month b \<and> day a < day b)))"

definition less_eq_date :: "date \<Rightarrow> date \<Rightarrow> bool" where
  "less_eq_date a b \<longleftrightarrow> a < b \<or> a = b"

instance
proof
  fix x y z :: date
  show "x < y \<longleftrightarrow> x \<le> y \<and> \<not> y \<le> x"
    by (cases x; cases y) (auto simp add: less_date_def less_eq_date_def)
  show "x \<le> x"
    by (simp add: less_eq_date_def)
  show "x \<le> y \<Longrightarrow> y \<le> z \<Longrightarrow> x \<le> z"
    by (cases x; cases y; cases z) (auto simp add: less_date_def less_eq_date_def)
  show "x \<le> y \<Longrightarrow> y \<le> x \<Longrightarrow> x = y"
    by (cases x; cases y) (auto simp add: less_date_def less_eq_date_def)
  show "x \<le> y \<or> y \<le> x"
    by (cases x; cases y) (auto simp add: less_date_def less_eq_date_def)
qed

end

definition is_leap :: "int \<Rightarrow> bool" where
  "is_leap y \<longleftrightarrow> y mod 4 = 0 \<and> (y mod 100 \<noteq> 0 \<or> y mod 400 = 0)"

definition days_in_month :: "int \<Rightarrow> int \<Rightarrow> int" where
  "days_in_month y m =
     (if m = 2 then (if is_leap y then 29 else 28)
      else if m = 4 \<or> m = 6 \<or> m = 9 \<or> m = 11 then 30
      else 31)"

text \<open>
  The constructor \<open>datetime.date(year, month, day)\<close> raises ValueError outside the
  calendar (years 1 to 9999).
\<close>

definition datetime_date :: "int \<Rightarrow> int \<Rightarrow> int \<Rightarrow> error + date" where
  "datetime_date y m d =
     (if 1 \<le> y \<and> y \<le> 9999 \<and> 1 \<le> m \<and> m \<le> 12 \<and> 1 \<le> d \<and> d \<le> days_in_month y m
      then Inr (Date y m d)
      else Inl ValueError)"

section \<open>EventType and Source\<close>

text \<open>The enum EventType (lines 194 to 199) and the \<open>value\<close> of each member.\<close>

datatype EventType = NATIONAL_DAY | HOLIDAY | ON_THIS_DAY | BIRTH | DEATH

fun type_value :: "EventType \<Rightarrow> int" where
  "type_value NATIONAL_DAY = 10"
| "type_value HOLIDAY = 20"
| "type_value ON_THIS_DAY = 30"
| "type_value BIRTH = 40"
| "type_value DEATH = 41"

text \<open>
  Source is an abstract base class whose property \<open>weight\<close> returns 10. The two
  adapters of main.py inherit it unchanged; \<open>Subclass w\<close> stands for any further
  subclass that overrides the property to return \<open>w\<close>.
\<close>

datatype source = DaysOfTheYearSource | WikipediaSource | Subclass int

fun weight :: "source \<Rightarrow> int" where
  "weight DaysOfTheYearSource = 10"
| "weight WikipediaSource = 10"
| "weight (Subclass w) = w"

section \<open>Event\<close>

text \<open>
  The class Event (lines 139 to 191), with the fields typed as \<open>__init__\<close> annotates
  them. \<open>__init__\<close> stores \<open>end_date or date\<close>; a \<open>datetime.date\<close> is always truthy,
  so the stored end date is the argument when one is given and the start date otherwise.
\<close>

record event =
  source :: source
  date :: date
  end_date :: date
  title :: string
  link :: string
  etype :: EventType

definition Event :: "source \<Rightarrow> date \<Rightarrow> string \<Rightarrow> string \<Rightarrow> EventType \<Rightarrow> date option \<Rightarrow> event" where
  "Event src d t l ty end_d =
     \<lparr> source = src,
       date = d,
       end_date = (case end_d of None \<Rightarrow> d | Some e \<Rightarrow> e),
       title = t,
       link = l,
       etype = ty \<rparr>"

text \<open>
  \<open>is_single_day\<close> returns \<open>self.end_date is None or self.date == self.end_date\<close>; the
  stored end date is never None.
\<close>

definition is_single_day :: "event \<Rightarrow> bool" where
  "is_single_day e \<longleftrightarrow> date e = end_date e"

text \<open>\<open>__eq__\<close> between two Events.\<close>

definition event_eq :: "event \<Rightarrow> event \<Rightarrow> bool" where
  "event_eq a b \<longleftrightarrow> title a = title b \<and> link a = link b"

text \<open>
  \<open>order_index\<close> returns a five-element list; it is a tuple here, since its
  elements have different types. Python compares two lists of equal length
  lexicographically, which is the order of the product type.
\<close>

type_synonym order_key = "int \<times> int \<times> date \<times> int \<times> string"

definition order_index :: "event \<Rightarrow> order_key" where
  "order_index e =
     (weight (source e),
      (if is_single_day e then 0 else 1),
      date e,
      type_value (etype e),
      title e)"

text \<open>\<open>__lt__\<close> between two Events.\<close>

definition event_lt :: "event \<Rightarrow> event \<Rightarrow> bool" where
  "event_lt a b \<longleftrightarrow> order_index a < order_index b"

text \<open>
  \<open>sorted(all_events)\<close> is a stable sort that compares with \<open>__lt__\<close> only, that is,
  a stable sort by \<open>order_index\<close>.
\<close>

definition sorted_events :: "event list \<Rightarrow> event list" where
  "sorted_events evs = sort_key order_index evs"

section \<open>What the adapters read from outside\<close>

text \<open>
  A parsed HTML element as BeautifulSoup holds it: a string, or a tag with its name
  and its children in document order.
\<close>

datatype node = Text string | Tag string "node list"

text \<open>\<open>tag.contents\<close>: the direct children.\<close>

fun contents :: "node \<Rightarrow> node list" where
  "contents (Text s) = []"
| "contents (Tag n cs) = cs"

text \<open>The tags below an element, in document order.\<close>

fun tags_in :: "node \<Rightarrow> node list" where
  "tags_in (Text s) = []"
| "tags_in (Tag n cs) =
     concat (map (\<lambda>c. (case c of Text s \<Rightarrow> [] | Tag m ds \<Rightarrow> [c]) @ tags_in c) cs)"

text \<open>
  \<open>tag.find_all(name)\<close>, every tag of that name below the element, and
  \<open>tag.find(name)\<close>, the first of them or None.
\<close>

definition find_all :: "string \<Rightarrow> node \<Rightarrow> node list" where
  "find_all nm t = filter (\<lambda>c. case c of Text s \<Rightarrow> False | Tag m ds \<Rightarrow> m = nm) (tags_in t)"

definition find_tag :: "string \<Rightarrow> node \<Rightarrow> node option" where
  "find_tag nm t = (case find_all nm t of [] \<Rightarrow> None | x # xs \<Rightarrow> Some x)"

text \<open>
  One \<open>card--day\<close> block of the page, reduced to what the loop of
  DaysOfTheYearSource reads: the \<open>date_day\<close> tag, and the \<open>href\<close> attribute of the
  anchor in the \<open>card__title\<close> block when the anchor has one.
\<close>

record card =
  date_day :: node
  href :: "string option"

text \<open>
  One entry of the JSON feed: \<open>year\<close> (absent from holiday entries), \<open>text\<close>, and
  \<open>pages\<close>, each page reduced to its \<open>content_urls.desktop.page\<close> string.
\<close>

record entry =
  entry_year :: "int option"
  entry_text :: string
  entry_pages :: "string list"

record payload =
  births :: "entry list"
  deaths :: "entry list"
  events :: "entry list"
  holidays :: "entry list"

text \<open>
  The collaborators of main.py: the clock (\<open>datetime.date.today()\<close>), the date
  parser, and the two HTTP endpoints. \<open>dateutil.parser.parse\<close> takes a string or a
  stream; \<open>parse_error\<close> is the exception it raises when it is handed a tag.
  \<open>day_cards\<close> is the list \<open>soup.find_all(...)\<close> yields for the page of a date;
  \<open>api_data\<close> is \<open>resp.json()\<close> for a month and a day.
\<close>

record world =
  date_today :: date
  parse_error :: "node \<Rightarrow> error"
  day_cards :: "date \<Rightarrow> error + card list"
  api_data :: "int \<Rightarrow> int \<Rightarrow> error + payload"

section \<open>The date of a fetch\<close>

text \<open>
  Lines 54 to 56, repeated as lines 91 to 93. \<open>year or datetime.date.today().year\<close>
  takes today's year when \<open>year\<close> is None or 0. When \<open>year\<close> is None the condition
  goes on to evaluate \<open>date < today\<close>; main.py binds no name \<open>today\<close>, so the lookup
  raises NameError.
\<close>

definition fetch_date :: "world \<Rightarrow> int \<Rightarrow> int \<Rightarrow> int option \<Rightarrow> error + date" where
  "fetch_date W d m y =
     (case datetime_date
             (case y of None \<Rightarrow> year (date_today W)
                      | Some n \<Rightarrow> if n = 0 then year (date_today W) else n) m d of
        Inl e \<Rightarrow> Inl e
      | Inr dt \<Rightarrow>
          (case y of
             None \<Rightarrow> Inl (NameError ''today'')
           | Some n \<Rightarrow> Inr dt))"

text \<open>A for loop that builds one Event per element and stops at the first exception.\<close>

fun for_each :: "('a \<Rightarrow> error + event) \<Rightarrow> 'a list \<Rightarrow> error + event list" where
  "for_each f [] = Inr []"
| "for_each f (x # xs) =
     (case f x of
        Inl e \<Rightarrow> Inl e
      | Inr ev \<Rightarrow> (case for_each f xs of Inl e \<Rightarrow> Inl e | Inr evs \<Rightarrow> Inr (ev # evs)))"

section \<open>DaysOfTheYearSource\<close>

text \<open>
  Lines 64 to 78, for the \<open>date_day\<close> tag of a card. A tag has no attribute
  \<open>content\<close>, and BeautifulSoup answers an unknown attribute \<open>tag.x\<close> with
  \<open>tag.find('x')\<close>. So \<open>card_date.content\<close> is the first tag named \<open>content\<close>
  below the \<open>date_day\<close> tag, and None when there is none, as in a block that holds
  only its text; then line 65 asks \<open>"-" in None\<close>, a TypeError.

  When there is such a tag, \<open>"-" in content\<close> asks whether a direct child of it is
  the string \<open>-\<close>, and \<open>content.split\<close> is in turn \<open>content.find('split')\<close>:
  calling None is a TypeError, and calling a tag is its \<open>find_all\<close>. In the range
  branch the two names of line 67 are unpacked from \<open>find_all('-')\<close>, a ValueError
  unless it has two elements, and line 68 then calls \<open>start.strip\<close>, which is None
  or a tag whose call returns a list the date parser refuses: a TypeError. Otherwise
  the list of line 70 is not equal to 2, and line 78 hands the tag to the date parser.
\<close>

definition card_dates :: "world \<Rightarrow> node \<Rightarrow> error + date \<times> date option" where
  "card_dates W card_date =
     (case find_tag ''content'' card_date of
        None \<Rightarrow> Inl TypeError
      | Some content \<Rightarrow>
          (if Text ''-'' \<in> set (contents content) then
             (case find_tag ''split'' content of
                None \<Rightarrow> Inl TypeError
              | Some split \<Rightarrow>
                  (case find_all ''-'' split of
                     [start, end] \<Rightarrow> Inl TypeError
                   | _ \<Rightarrow> Inl ValueError))
           else
             (case find_tag ''split'' content of
                None \<Rightarrow> Inl TypeError
              | Some split \<Rightarrow> Inl (parse_error W content))))"

text \<open>
  The body of the loop, lines 63 to 83. After the dates, line 80 reads the title
  (again \<open>.content\<close>, with no exception), line 81 the \<open>href\<close> of the anchor, a
  KeyError when it has none, and line 82 evaluates \<open>EventType.NATIONAL_DAY_OF_X\<close>
  among the arguments of \<open>Event\<close>: EventType has no member of that name, so the
  lookup raises AttributeError before \<open>Event.__init__\<close> is entered.
\<close>

definition card_event :: "world \<Rightarrow> card \<Rightarrow> error + event" where
  "card_event W c =
     (case card_dates W (date_day c) of
        Inl e \<Rightarrow> Inl e
      | Inr dates \<Rightarrow>
          (case href c of
             None \<Rightarrow> Inl (KeyError ''href'')
           | Some l \<Rightarrow> Inl (AttributeError ''NATIONAL_DAY_OF_X'')))"

definition DaysOfTheYear_fetch_events :: "world \<Rightarrow> int \<Rightarrow> int \<Rightarrow> int option \<Rightarrow> error + event list" where
  "DaysOfTheYear_fetch_events W d m y =
     (case fetch_date W d m y of
        Inl e \<Rightarrow> Inl e
      | Inr dt \<Rightarrow>
          (case day_cards W dt of
             Inl e \<Rightarrow> Inl e
           | Inr cards \<Rightarrow> for_each (card_event W) cards))"

section \<open>WikipediaSource\<close>

text \<open>\<open>datetime.date(data['year'], month, day)\<close>.\<close>

definition entry_date :: "entry \<Rightarrow> int \<Rightarrow> int \<Rightarrow> error + date" where
  "entry_date x m d =
     (case entry_year x of
        None \<Rightarrow> Inl (KeyError ''year'')
      | Some n \<Rightarrow> datetime_date n m d)"

text \<open>\<open>data['pages'][0]['content_urls']['desktop']['page']\<close>.\<close>

definition page_link :: "entry \<Rightarrow> error + string" where
  "page_link x = (case entry_pages x of [] \<Rightarrow> Inl IndexError | p # ps \<Rightarrow> Inr p)"

text \<open>Lines 99 to 105.\<close>

definition birth_event :: "int \<Rightarrow> int \<Rightarrow> entry \<Rightarrow> error + event" where
  "birth_event d m birth_data =
     (case entry_date birth_data m d of
        Inl e \<Rightarrow> Inl e
      | Inr dt \<Rightarrow>
          (case page_link birth_data of
             Inl e \<Rightarrow> Inl e
           | Inr l \<Rightarrow> Inr (Event WikipediaSource dt (entry_text birth_data) l BIRTH None)))"

text \<open>
  Lines 107 to 113. The link is read from \<open>birth_data\<close>, the variable of the loop
  over the births: after that loop it holds the last birth entry, and it is unbound
  when there was none.
\<close>

definition death_event :: "int \<Rightarrow> int \<Rightarrow> entry option \<Rightarrow> entry \<Rightarrow> error + event" where
  "death_event d m birth_data death_data =
     (case entry_date death_data m d of
        Inl e \<Rightarrow> Inl e
      | Inr dt \<Rightarrow>
          (case birth_data of
             None \<Rightarrow> Inl (UnboundLocalError ''birth_data'')
           | Some b \<Rightarrow>
               (case page_link b of
                  Inl e \<Rightarrow> Inl e
                | Inr l \<Rightarrow> Inr (Event WikipediaSource dt (entry_text death_data) l DEATH None))))"

text \<open>Lines 115 to 121.\<close>

definition event_event :: "int \<Rightarrow> int \<Rightarrow> entry \<Rightarrow> error + event" where
  "event_event d m event_data =
     (case entry_date event_data m d of
        Inl e \<Rightarrow> Inl e
      | Inr dt \<Rightarrow>
          (case page_link event_data of
             Inl e \<Rightarrow> Inl e
           | Inr l \<Rightarrow> Inr (Event WikipediaSource dt (entry_text event_data) l ON_THIS_DAY None)))"

text \<open>Lines 123 to 129; the year is that of the date of the fetch.\<close>

definition holiday_event :: "date \<Rightarrow> int \<Rightarrow> int \<Rightarrow> entry \<Rightarrow> error + event" where
  "holiday_event fetched d m holiday_data =
     (case datetime_date (year fetched) m d of
        Inl e \<Rightarrow> Inl e
      | Inr dt \<Rightarrow>
          (case page_link holiday_data of
             Inl e \<Rightarrow> Inl e
           | Inr l \<Rightarrow> Inr (Event WikipediaSource dt (entry_text holiday_data) l HOLIDAY None)))"

definition last_entry :: "entry list \<Rightarrow> entry option" where
  "last_entry xs = (case rev xs of [] \<Rightarrow> None | x # _ \<Rightarrow> Some x)"

definition Wikipedia_fetch_events :: "world \<Rightarrow> int \<Rightarrow> int \<Rightarrow> int option \<Rightarrow> error + event list" where
  "Wikipedia_fetch_events W d m y =
     (case fetch_date W d m y of
        Inl e \<Rightarrow> Inl e
      | Inr dt \<Rightarrow>
     (case api_data W m d of
        Inl e \<Rightarrow> Inl e
      | Inr data \<Rightarrow>
     (case for_each (birth_event d m) (births data) of
        Inl e \<Rightarrow> Inl e
      | Inr bs \<Rightarrow>
     (case for_each (death_event d m (last_entry (births data))) (deaths data) of
        Inl e \<Rightarrow> Inl e
      | Inr ds \<Rightarrow>
     (case for_each (event_event d m) (events data) of
        Inl e \<Rightarrow> Inl e
      | Inr es \<Rightarrow>
     (case for_each (holiday_event dt d m) (holidays data) of
        Inl e \<Rightarrow> Inl e
      | Inr hs \<Rightarrow> Inr (bs @ ds @ es @ hs)))))))"

section \<open>EventCollector\<close>

text \<open>
  A registered source, as the collector uses it: its \<open>fetch_events\<close>, called with a
  day, a month and an optional year.
\<close>

type_synonym fetcher = "int \<Rightarrow> int \<Rightarrow> int option \<Rightarrow> error + event list"

text \<open>
  The loop of lines 209 and 210 over \<open>self.sources\<close>: each source is called with
  today's day and month and no year, and an exception of a call leaves the loop and
  the method, since nothing catches it.
\<close>

fun fetch_all :: "fetcher list \<Rightarrow> date \<Rightarrow> event list \<Rightarrow> error + event list" where
  "fetch_all [] t_day all_events = Inr all_events"
| "fetch_all (src # rest) t_day all_events =
     (case src (day t_day) (month t_day) None of
        Inl e \<Rightarrow> Inl e
      | Inr evs \<Rightarrow> fetch_all rest t_day (all_events @ evs))"

definition events_today_of :: "fetcher list \<Rightarrow> date \<Rightarrow> error + event list" where
  "events_today_of sources t_day =
     (case fetch_all sources t_day [] of
        Inl e \<Rightarrow> Inl e
      | Inr all_events \<Rightarrow> Inr (sorted_events all_events))"

text \<open>\<open>__init__\<close> registers one source.\<close>

definition EventCollector_sources :: "world \<Rightarrow> fetcher list" where
  "EventCollector_sources W = [DaysOfTheYear_fetch_events W]"

definition events_today :: "world \<Rightarrow> error + event list" where
  "events_today W = events_today_of (EventCollector_sources W) (date_today W)"

section \<open>The ordering key\<close>

lemma lex_step:
  "((x::'a::linorder) < y \<or> x \<le> y \<and> P) \<longleftrightarrow> (x < y \<or> x = y \<and> P)"
  by auto

lemma event_lt_unfold:
  "event_lt a b \<longleftrightarrow>
     weight (source a) < weight (source b) \<or>
     (weight (source a) = weight (source b) \<and>
       ((if is_single_day a then 0 else (1::int)) < (if is_single_day b then 0 else 1) \<or>
        ((if is_single_day a then 0 else (1::int)) = (if is_single_day b then 0 else 1) \<and>
          (date a < date b \<or>
           (date a = date b \<and>
             (type_value (etype a) < type_value (etype b) \<or>
              (type_value (etype a) = type_value (etype b) \<and> title a < title b)))))))"
  unfolding event_lt_def order_index_def by (simp only: less_prod_simp lex_step)

text \<open>
  C1. The ordering key of an Event is the tuple of the source's weight, 0 for a
  single-day Event and 1 otherwise, the date, the rank of the category and the title,
  compared in that order. So an Event of a source of lower weight is less than every
  Event of a source of higher weight, whatever the other fields hold, and \<open>sorted\<close>
  puts it first; and between two Events that agree on the first four components the
  titles decide.
\<close>

theorem order_index_lexicographic:
  "order_index e =
     (weight (source e), (if is_single_day e then 0 else 1), date e,
      type_value (etype e), title e)
   \<and> (event_lt a b \<longleftrightarrow>
     weight (source a) < weight (source b) \<or>
     (weight (source a) = weight (source b) \<and>
       ((if is_single_day a then 0 else (1::int)) < (if is_single_day b then 0 else 1) \<or>
        ((if is_single_day a then 0 else (1::int)) = (if is_single_day b then 0 else 1) \<and>
          (date a < date b \<or>
           (date a = date b \<and>
             (type_value (etype a) < type_value (etype b) \<or>
              (type_value (etype a) = type_value (etype b) \<and> title a < title b))))))))
   \<and> (weight (source a) < weight (source b) \<longrightarrow>
        event_lt a b \<and> \<not> event_lt b a \<and>
        sorted_events [a, b] = [a, b] \<and> sorted_events [b, a] = [a, b])
   \<and> (weight (source c) = weight (source d) \<and> is_single_day c = is_single_day d \<and>
        date c = date d \<and> type_value (etype c) = type_value (etype d) \<longrightarrow>
        (event_lt c d \<longleftrightarrow> title c < title d))"
proof (intro conjI impI)
  show "order_index e =
     (weight (source e), (if is_single_day e then 0 else 1), date e,
      type_value (etype e), title e)"
    by (simp add: order_index_def)
next
  show "event_lt a b \<longleftrightarrow>
     weight (source a) < weight (source b) \<or>
     (weight (source a) = weight (source b) \<and>
       ((if is_single_day a then 0 else (1::int)) < (if is_single_day b then 0 else 1) \<or>
        ((if is_single_day a then 0 else (1::int)) = (if is_single_day b then 0 else 1) \<and>
          (date a < date b \<or>
           (date a = date b \<and>
             (type_value (etype a) < type_value (etype b) \<or>
              (type_value (etype a) = type_value (etype b) \<and> title a < title b)))))))"
    by (rule event_lt_unfold)
next
  assume w: "weight (source a) < weight (source b)"
  then show "event_lt a b" by (simp add: event_lt_unfold)
  from w show "\<not> event_lt b a" by (simp add: event_lt_unfold)
  from w have k: "order_index a < order_index b" "\<not> order_index b \<le> order_index a"
    by (simp_all add: order_index_def)
  then show "sorted_events [a, b] = [a, b]" by (simp add: sorted_events_def)
  from k show "sorted_events [b, a] = [a, b]" by (simp add: sorted_events_def)
next
  assume "weight (source c) = weight (source d) \<and> is_single_day c = is_single_day d \<and>
        date c = date d \<and> type_value (etype c) = type_value (etype d)"
  then show "event_lt c d \<longleftrightarrow> title c < title d" by (simp add: event_lt_unfold)
qed

theorem order_index_lexicographic_witness:
  "weight (source (Event (Subclass 5) (Date 2024 8 2) ''z'' ''l'' DEATH (Some (Date 2024 8 9))))
     < weight (source (Event WikipediaSource (Date 1990 1 1) ''a'' ''m'' HOLIDAY None))
   \<and> event_lt (Event (Subclass 5) (Date 2024 8 2) ''z'' ''l'' DEATH (Some (Date 2024 8 9)))
               (Event WikipediaSource (Date 1990 1 1) ''a'' ''m'' HOLIDAY None)
   \<and> sorted_events [Event WikipediaSource (Date 1990 1 1) ''a'' ''m'' HOLIDAY None,
                     Event (Subclass 5) (Date 2024 8 2) ''z'' ''l'' DEATH (Some (Date 2024 8 9))]
      = [Event (Subclass 5) (Date 2024 8 2) ''z'' ''l'' DEATH (Some (Date 2024 8 9)),
         Event WikipediaSource (Date 1990 1 1) ''a'' ''m'' HOLIDAY None]
   \<and> event_lt (Event WikipediaSource (Date 1990 8 2) ''Ada'' ''p'' BIRTH None)
               (Event WikipediaSource (Date 1990 8 2) ''Bob'' ''q'' BIRTH None)"
  using order_index_lexicographic
    [of _ "Event (Subclass 5) (Date 2024 8 2) ''z'' ''l'' DEATH (Some (Date 2024 8 9))"
      "Event WikipediaSource (Date 1990 1 1) ''a'' ''m'' HOLIDAY None"
      "Event WikipediaSource (Date 1990 8 2) ''Ada'' ''p'' BIRTH None"
      "Event WikipediaSource (Date 1990 8 2) ''Bob'' ''q'' BIRTH None"]
  by (simp add: Event_def is_single_day_def)

text \<open>
  C2. For any two Events exactly one of three cases holds: the first is less than the
  second, the second is less than the first, or neither is and the two agree on every
  component of the ordering key. The comparison is irreflexive and transitive, so is
  "not greater than", and the list \<open>sorted\<close> returns is ordered by the key.
\<close>

theorem event_lt_total_preorder:
  "((event_lt a b \<and> \<not> event_lt b a \<and> order_index a \<noteq> order_index b) \<or>
    (\<not> event_lt a b \<and> event_lt b a \<and> order_index a \<noteq> order_index b) \<or>
    (\<not> event_lt a b \<and> \<not> event_lt b a \<and> order_index a = order_index b))
   \<and> (order_index a = order_index b \<longleftrightarrow>
        weight (source a) = weight (source b) \<and> is_single_day a = is_single_day b \<and>
        date a = date b \<and> type_value (etype a) = type_value (etype b) \<and> title a = title b)
   \<and> \<not> event_lt a a
   \<and> (event_lt a b \<and> event_lt b c \<longrightarrow> event_lt a c)
   \<and> (\<not> event_lt b a \<and> \<not> event_lt c b \<longrightarrow> \<not> event_lt c a)
   \<and> sorted (map order_index (sorted_events evs))"
proof (intro conjI)
  show "(event_lt a b \<and> \<not> event_lt b a \<and> order_index a \<noteq> order_index b) \<or>
    (\<not> event_lt a b \<and> event_lt b a \<and> order_index a \<noteq> order_index b) \<or>
    (\<not> event_lt a b \<and> \<not> event_lt b a \<and> order_index a = order_index b)"
    unfolding event_lt_def by (rule linorder_cases [of "order_index a" "order_index b"]) auto
  show "order_index a = order_index b \<longleftrightarrow>
        weight (source a) = weight (source b) \<and> is_single_day a = is_single_day b \<and>
        date a = date b \<and> type_value (etype a) = type_value (etype b) \<and> title a = title b"
    by (auto simp add: order_index_def split: if_splits)
  show "\<not> event_lt a a" by (simp add: event_lt_def)
  show "event_lt a b \<and> event_lt b c \<longrightarrow> event_lt a c"
    unfolding event_lt_def by (blast intro: less_trans)
  show "\<not> event_lt b a \<and> \<not> event_lt c b \<longrightarrow> \<not> event_lt c a"
    unfolding event_lt_def by (auto simp add: not_less intro: order_trans)
  show "sorted (map order_index (sorted_events evs))"
    by (simp add: sorted_events_def)
qed

theorem event_lt_total_preorder_witness:
  "event_lt (Event WikipediaSource (Date 1990 8 2) ''Ada'' ''p'' BIRTH None)
            (Event WikipediaSource (Date 1990 8 2) ''Bob'' ''q'' BIRTH None)
   \<and> event_lt (Event WikipediaSource (Date 1990 8 2) ''Bob'' ''q'' BIRTH None)
              (Event WikipediaSource (Date 1990 8 2) ''Cy'' ''r'' DEATH None)
   \<and> event_lt (Event WikipediaSource (Date 1990 8 2) ''Ada'' ''p'' BIRTH None)
              (Event WikipediaSource (Date 1990 8 2) ''Cy'' ''r'' DEATH None)
   \<and> \<not> event_lt (Event WikipediaSource (Date 1990 8 2) ''Bob'' ''q'' BIRTH None)
                (Event WikipediaSource (Date 1990 8 2) ''Ada'' ''p'' BIRTH None)
   \<and> order_index (Event WikipediaSource (Date 1990 8 2) ''Ada'' ''p'' BIRTH None)
       \<noteq> order_index (Event WikipediaSource (Date 1990 8 2) ''Bob'' ''q'' BIRTH None)"
  using event_lt_total_preorder
    [of "Event WikipediaSource (Date 1990 8 2) ''Ada'' ''p'' BIRTH None"
      "Event WikipediaSource (Date 1990 8 2) ''Bob'' ''q'' BIRTH None"
      "Event WikipediaSource (Date 1990 8 2) ''Cy'' ''r'' DEATH None"]
  by (simp add: Event_def is_single_day_def event_lt_unfold)

section \<open>Equality and construction of Events\<close>

text \<open>
  C8. Two Events are equal exactly when their titles and their links are equal;
  changing the source, the date, the end date or the category of either does not
  change the answer. Two births with the same title and link and different dates are
  equal, have different ordering keys, and \<open>sorted\<close> puts the earlier one first.
\<close>

theorem event_eq_title_link:
  "(event_eq a b \<longleftrightarrow> title a = title b \<and> link a = link b)
   \<and> event_eq (a\<lparr>source := s, date := d, end_date := e, etype := ty\<rparr>) b = event_eq a b
   \<and> event_eq a (b\<lparr>source := s, date := d, end_date := e, etype := ty\<rparr>) = event_eq a b
   \<and> event_eq (Event WikipediaSource (Date 1990 8 2) ''X'' ''http://x'' BIRTH None)
               (Event WikipediaSource (Date 1991 8 2) ''X'' ''http://x'' BIRTH None)
   \<and> order_index (Event WikipediaSource (Date 1990 8 2) ''X'' ''http://x'' BIRTH None)
       \<noteq> order_index (Event WikipediaSource (Date 1991 8 2) ''X'' ''http://x'' BIRTH None)
   \<and> sorted_events [Event WikipediaSource (Date 1991 8 2) ''X'' ''http://x'' BIRTH None,
                     Event WikipediaSource (Date 1990 8 2) ''X'' ''http://x'' BIRTH None]
      = [Event WikipediaSource (Date 1990 8 2) ''X'' ''http://x'' BIRTH None,
         Event WikipediaSource (Date 1991 8 2) ''X'' ''http://x'' BIRTH None]"
  by (simp add: event_eq_def Event_def sorted_events_def order_index_def is_single_day_def
      less_date_def less_eq_date_def)

text \<open>
  C9, as the claim states it, fails: \<open>__init__\<close> stores the end date it is given and
  compares it with nothing, so an Event built with an end date before its date keeps
  it.
\<close>

theorem Event_end_date_before_date:
  "end_date (Event DaysOfTheYearSource (Date 2022 9 15) ''t'' ''l'' NATIONAL_DAY
              (Some (Date 2022 9 1)))
     < date (Event DaysOfTheYearSource (Date 2022 9 15) ''t'' ''l'' NATIONAL_DAY
              (Some (Date 2022 9 1)))"
  by (simp add: Event_def less_date_def)

text \<open>
  C9, amended. An Event built without an end date has its date as end date, so its
  end date is not before its date. An Event built with an end date has that end date
  as given, and its end date is not before its date exactly when the argument is not
  before the date. In both cases \<open>is_single_day\<close> holds exactly when date and end date
  are equal.
\<close>

theorem Event_end_date_default:
  "date (Event s d t l ty x) = d
   \<and> end_date (Event s d t l ty None) = d
   \<and> date (Event s d t l ty None) \<le> end_date (Event s d t l ty None)
   \<and> end_date (Event s d t l ty (Some e)) = e
   \<and> (date (Event s d t l ty (Some e)) \<le> end_date (Event s d t l ty (Some e)) \<longleftrightarrow> d \<le> e)
   \<and> (is_single_day (Event s d t l ty x) \<longleftrightarrow>
        date (Event s d t l ty x) = end_date (Event s d t l ty x))"
  by (simp add: Event_def is_single_day_def)

section \<open>The adapters\<close>

lemma fetch_date_None: "isl (fetch_date W d m None)"
  by (simp add: fetch_date_def split: sum.splits)

text \<open>
  C3, on the code. With the year omitted the date of a fetch is never resolved: the
  three lines end in an exception for every day, month and clock. With the clock at
  2024-08-10 and a request for day 2 of month 8, both adapters raise NameError for
  the unbound name \<open>today\<close>, where the claim has the year 2025.
\<close>

theorem fetch_date_year_omitted_raises:
  "isl (fetch_date W d m None)
   \<and> fetch_date (W\<lparr>date_today := Date 2024 8 10\<rparr>) 2 8 None = Inl (NameError ''today'')
   \<and> DaysOfTheYear_fetch_events (W\<lparr>date_today := Date 2024 8 10\<rparr>) 2 8 None
       = Inl (NameError ''today'')
   \<and> Wikipedia_fetch_events (W\<lparr>date_today := Date 2024 8 10\<rparr>) 2 8 None
       = Inl (NameError ''today'')"
proof -
  have a: "isl (fetch_date W d m None)"
    by (rule fetch_date_None)
  have b: "fetch_date (W\<lparr>date_today := Date 2024 8 10\<rparr>) 2 8 None = Inl (NameError ''today'')"
    by (simp add: fetch_date_def datetime_date_def days_in_month_def)
  show ?thesis
    using a b by (simp add: DaysOfTheYear_fetch_events_def Wikipedia_fetch_events_def)
qed

text \<open>
  C4, on the code. The \<open>date_day\<close> tag of the card "September, 2022" holds only that
  text, so it has no tag named \<open>content\<close> below it: \<open>card_date.content\<close> is None
  and line 65 raises TypeError. The month branch is not reached, and the fetch of a
  page with that one card ends in the TypeError: no Event with the dates 2022-09-01
  and 2022-09-30 is produced.
\<close>

theorem month_only_card_raises:
  "find_tag ''content'' (Tag ''div'' [Text ''September, 2022'']) = None
   \<and> card_dates W (Tag ''div'' [Text ''September, 2022'']) = Inl TypeError
   \<and> DaysOfTheYear_fetch_events
       (W\<lparr>day_cards := (\<lambda>dt. Inr [\<lparr>date_day = Tag ''div'' [Text ''September, 2022''],
                                     href = Some l\<rparr>])\<rparr>)
       1 9 (Some 2022)
     = Inl TypeError"
proof -
  have a: "find_tag ''content'' (Tag ''div'' [Text ''September, 2022'']) = None"
    by (simp add: find_tag_def find_all_def)
  have b: "card_dates V (Tag ''div'' [Text ''September, 2022'']) = Inl TypeError" for V
    by (simp add: card_dates_def a)
  have c: "fetch_date V 1 9 (Some 2022) = Inr (Date 2022 9 1)" for V
    by (simp add: fetch_date_def datetime_date_def days_in_month_def)
  show ?thesis
    using a b [of W] by (simp add: DaysOfTheYear_fetch_events_def c card_event_def b)
qed

text \<open>
  C5, on the code. The \<open>date_day\<close> tag of the card
  "Thu Sep 15th, 2022 - Sat Oct 15th, 2022" holds only that text, so
  \<open>card_date.content\<close> is None and line 65 raises TypeError before the string is
  cut at the separator or either end is parsed. The fetch of a page with that one card
  ends in the TypeError: no Event with the dates 2022-09-15 and 2022-10-15 is produced.
\<close>

theorem range_card_raises:
  "find_tag ''content'' (Tag ''div'' [Text ''Thu Sep 15th, 2022 - Sat Oct 15th, 2022'']) = None
   \<and> card_dates W (Tag ''div'' [Text ''Thu Sep 15th, 2022 - Sat Oct 15th, 2022''])
       = Inl TypeError
   \<and> DaysOfTheYear_fetch_events
       (W\<lparr>day_cards := (\<lambda>dt. Inr
          [\<lparr>date_day = Tag ''div'' [Text ''Thu Sep 15th, 2022 - Sat Oct 15th, 2022''],
            href = Some l\<rparr>])\<rparr>)
       15 9 (Some 2022)
     = Inl TypeError"
proof -
  have a: "find_tag ''content'' (Tag ''div'' [Text ''Thu Sep 15th, 2022 - Sat Oct 15th, 2022''])
      = None"
    by (simp add: find_tag_def find_all_def)
  have b: "card_dates V (Tag ''div'' [Text ''Thu Sep 15th, 2022 - Sat Oct 15th, 2022''])
      = Inl TypeError" for V
    by (simp add: card_dates_def a)
  have c: "fetch_date V 15 9 (Some 2022) = Inr (Date 2022 9 15)" for V
    by (simp add: fetch_date_def datetime_date_def days_in_month_def)
  show ?thesis
    using a b [of W] by (simp add: DaysOfTheYear_fetch_events_def c card_event_def b)
qed

text \<open>
  C6, on the code. For a payload with one birth (page http://b) and one death (page
  http://d), requested for 2 August 2024, the Event of the death carries the link of
  the birth. For a payload with that death and no birth the fetch raises
  UnboundLocalError.
\<close>

theorem death_link_from_last_birth:
  "Wikipedia_fetch_events
     (W\<lparr>api_data := (\<lambda>m d. Inr
        \<lparr>births = [\<lparr>entry_year = Some 1990, entry_text = ''B'', entry_pages = [''http://b'']\<rparr>],
         deaths = [\<lparr>entry_year = Some 2000, entry_text = ''D'', entry_pages = [''http://d'']\<rparr>],
         events = [], holidays = []\<rparr>)\<rparr>)
     2 8 (Some 2024)
   = Inr [Event WikipediaSource (Date 1990 8 2) ''B'' ''http://b'' BIRTH None,
          Event WikipediaSource (Date 2000 8 2) ''D'' ''http://b'' DEATH None]
   \<and> Wikipedia_fetch_events
     (W\<lparr>api_data := (\<lambda>m d. Inr
        \<lparr>births = [],
         deaths = [\<lparr>entry_year = Some 2000, entry_text = ''D'', entry_pages = [''http://d'']\<rparr>],
         events = [], holidays = []\<rparr>)\<rparr>)
     2 8 (Some 2024)
   = Inl (UnboundLocalError ''birth_data'')"
  by (simp add: Wikipedia_fetch_events_def fetch_date_def datetime_date_def days_in_month_def
      is_leap_def birth_event_def death_event_def entry_date_def page_link_def last_entry_def)

section \<open>The collector\<close>

lemma fetch_all_raises:
  "\<forall>s\<in>set pre. \<not> isl (s (day t) (month t) None) \<Longrightarrow>
   src (day t) (month t) None = Inl e \<Longrightarrow>
   fetch_all (pre @ src # post) t acc = Inl e"
proof (induction pre arbitrary: acc)
  case Nil
  then show ?case by simp
next
  case (Cons s pre)
  then obtain evs where "s (day t) (month t) None = Inr evs"
    by (cases "s (day t) (month t) None") auto
  with Cons show ?case by simp
qed

lemma fetch_all_returns:
  "\<forall>s\<in>set sources. \<not> isl (s (day t) (month t) None) \<Longrightarrow>
   fetch_all sources t acc =
     Inr (acc @ concat (map (\<lambda>s. projr (s (day t) (month t) None)) sources))"
proof (induction sources arbitrary: acc)
  case Nil
  then show ?case by simp
next
  case (Cons s sources)
  then obtain evs where "s (day t) (month t) None = Inr evs"
    by (cases "s (day t) (month t) None") auto
  with Cons show ?case by simp
qed

text \<open>
  C7, as the claim states it, fails: with two registered sources, the first raising
  FetchError and the second returning one Event, the collector returns no list; the
  FetchError reaches the caller.
\<close>

theorem fetch_error_not_isolated:
  "events_today_of
     [\<lambda>d m y. Inl (Raised ''FetchError''),
      \<lambda>d m y. Inr [Event WikipediaSource (Date 1990 8 2) ''X'' ''http://x'' BIRTH None]]
     (Date 2024 8 10)
   = Inl (Raised ''FetchError'')
   \<and> events_today_of
     [\<lambda>d m y. Inl (Raised ''FetchError''),
      \<lambda>d m y. Inr [Event WikipediaSource (Date 1990 8 2) ''X'' ''http://x'' BIRTH None]]
     (Date 2024 8 10)
   \<noteq> Inr [Event WikipediaSource (Date 1990 8 2) ''X'' ''http://x'' BIRTH None]"
  by (simp add: events_today_of_def)

text \<open>
  C7, amended. If a registered source raises an exception during a collection run
  and every source before it returned, that exception is the result of the run: it
  reaches the caller and no list is returned, whatever the sources after it would
  return. If no registered source raises, the run returns the records of all sources,
  concatenated in the order of the registry and sorted by the ordering key.
\<close>

theorem events_today_of_propagates:
  "((\<forall>s\<in>set pre. \<not> isl (s (day t) (month t) None)) \<and> src (day t) (month t) None = Inl e \<longrightarrow>
      events_today_of (pre @ src # post) t = Inl e)
   \<and> ((\<forall>s\<in>set sources. \<not> isl (s (day t) (month t) None)) \<longrightarrow>
      events_today_of sources t =
        Inr (sorted_events (concat (map (\<lambda>s. projr (s (day t) (month t) None)) sources))))"
  by (simp add: events_today_of_def fetch_all_raises fetch_all_returns)

theorem events_today_of_propagates_witness:
  "events_today_of
     ([\<lambda>d m y. Inr [Event WikipediaSource (Date 1990 m d) ''X'' ''http://x'' BIRTH None]]
      @ (\<lambda>d m y. Inl (Raised ''FetchError''))
      # [\<lambda>d m y. Inr [Event WikipediaSource (Date 1991 m d) ''Y'' ''http://y'' DEATH None]])
     (Date 2024 8 10)
   = Inl (Raised ''FetchError'')
   \<and> events_today_of
     [\<lambda>d m y. Inr [Event WikipediaSource (Date 1991 m d) ''Y'' ''http://y'' DEATH None],
      \<lambda>d m y. Inr [Event WikipediaSource (Date 1990 m d) ''X'' ''http://x'' BIRTH None]]
     (Date 2024 8 10)
   = Inr [Event WikipediaSource (Date 1990 8 10) ''X'' ''http://x'' BIRTH None,
          Event WikipediaSource (Date 1991 8 10) ''Y'' ''http://y'' DEATH None]"
  using events_today_of_propagates
    [of "[\<lambda>d m y. Inr [Event WikipediaSource (Date 1990 m d) ''X'' ''http://x'' BIRTH None]]"
      "Date 2024 8 10" "\<lambda>d m y. Inl (Raised ''FetchError'')" "Raised ''FetchError''"
      "[\<lambda>d m y. Inr [Event WikipediaSource (Date 1991 m d) ''Y'' ''http://y'' DEATH None]]"
      "[\<lambda>d m y. Inr [Event WikipediaSource (Date 1991 m d) ''Y'' ''http://y'' DEATH None],
        \<lambda>d m y. Inr [Event WikipediaSource (Date 1990 m d) ''X'' ''http://x'' BIRTH None]]"]
  by (simp add: sorted_events_def Event_def order_index_def is_single_day_def
      less_date_def less_eq_date_def)

text \<open>
  \<open>events_today\<close> calls its one registered source with today's day and month and no
  year, so the call ends in the exception of the date of a fetch: the method returns
  no list, for any clock and any page.
\<close>

lemma events_today_returns_no_list: "isl (events_today W)"
proof -
  have "isl (DaysOfTheYear_fetch_events W (day (date_today W)) (month (date_today W)) None)"
    using fetch_date_None [of W "day (date_today W)" "month (date_today W)"]
    by (auto simp add: DaysOfTheYear_fetch_events_def split: sum.splits)
  then show ?thesis
    by (auto simp add: events_today_def events_today_of_def EventCollector_sources_def
        split: sum.splits)
qed

end
